theory Spec2Isabelle
  imports Main
begin

section \<open>Data model of \<open>runner.py\<close>\<close>

text \<open>
  The module \<open>runner.py\<close> is the entry point of the service: it builds the certificate
  trust store, resolves the TLS security profile and starts the Uvicorn server. This
  theory embeds its functions as HOL functions. File contents and paths are byte strings
  (\<open>string\<close> is a list of 8-bit characters). A Python exception is a value of the type
  \<open>error\<close>, and a function that can raise returns \<open>error + 'a\<close> with \<open>Inl\<close> for the
  exception.
\<close>

type_synonym path = string
type_synonym bytes = string

datatype error =
    OSError path
    \<comment> \<open>\<open>open\<close> or \<open>shutil.copyfile\<close> failed on this path (FileNotFoundError,
        PermissionError, ...: the subclasses of OSError, which carry the file name)\<close>
  | SameFileError path path
    \<comment> \<open>raised by \<open>shutil.copyfile\<close> when source and destination are the same file\<close>
  | ValueError
    \<comment> \<open>raised by the PEM loaders of \<open>cryptography.x509\<close>; it carries no path\<close>
  | ConfigurationError
    \<comment> \<open>named by the specification for the TLS resolver; no statement of
        \<open>runner.py\<close> raises it\<close>
  | CertificateLoadError path
    \<comment> \<open>named by the specification for the trust-store build; no statement of
        \<open>runner.py\<close> raises it\<close>

subsection \<open>Configuration\<close>

text \<open>
  The configuration classes live in \<open>ols.app.models.config\<close>, outside this module. The
  records below hold the fields that \<open>runner.py\<close> reads, under the names it reads them by.
  A field that may be \<open>None\<close> is an \<open>option\<close>.
\<close>

record dev_config =
  run_on_localhost :: bool
  disable_tls :: bool

record logging_config =
  uvicorn_log_level :: int

record tls_config =
  tls_key_path :: "path option"
  tls_certificate_path :: "path option"
  tls_key_password :: "string option"

record tls_security_profile =
  profile_type :: "string option"
  min_tls_version :: "string option"
  ciphers :: "string list"

record ols_config =
  certificate_directory :: path
  extra_ca :: "path list"
  logging_config :: logging_config
  tls_config :: tls_config
  tls_security_profile :: "tls_security_profile option"
  max_workers :: int

record config =
  dev_config :: dev_config
  ols_config :: ols_config

text \<open>
  The constants of \<open>ols.constants\<close> that the module uses. Their values are not part of
  \<open>runner.py\<close>, so they are parameters of the model.
\<close>

record constants =
  CERTIFICATE_STORAGE_FILENAME :: string
  DEFAULT_SSL_VERSION :: int
  DEFAULT_SSL_CIPHERS :: string

text \<open>\<open>logging.INFO\<close> of the Python standard library.\<close>

definition logging_INFO :: int where
  "logging_INFO = 20"

subsection \<open>The TLS helper module\<close>

text \<open>
  \<open>get_ssl_version\<close> and \<open>get_ciphers\<close> call three functions of \<open>ols.utils.tls\<close>. That
  module is not part of \<open>runner.py\<close>; the model takes it as a parameter, a record of three
  functions that return a value or raise.
\<close>

record tls =
  tls_min_tls_version :: "string option \<Rightarrow> string \<Rightarrow> error + string"
  tls_ssl_tls_version :: "string \<Rightarrow> error + int"
  tls_ciphers_as_string :: "string list \<Rightarrow> string \<Rightarrow> error + string"

section \<open>TLS profile resolution\<close>

text \<open>
  \<open>get_ssl_version(sec_profile)\<close> and \<open>get_ciphers(sec_profile)\<close>. The \<open>logger.info\<close>
  calls of the two functions only write log output and are left out. An exception of a
  helper is not caught, so it propagates.
\<close>

definition get_ssl_version ::
  "tls \<Rightarrow> constants \<Rightarrow> tls_security_profile option \<Rightarrow> error + int" where
  "get_ssl_version T K sec_profile =
     (case sec_profile of
        None \<Rightarrow> Inr (DEFAULT_SSL_VERSION K)
      | Some p \<Rightarrow>
          (case profile_type p of
             None \<Rightarrow> Inr (DEFAULT_SSL_VERSION K)
           | Some pt \<Rightarrow>
               (case tls_min_tls_version T (min_tls_version p) pt of
                  Inl e \<Rightarrow> Inl e
                | Inr v \<Rightarrow> tls_ssl_tls_version T v)))"

definition get_ciphers ::
  "tls \<Rightarrow> constants \<Rightarrow> tls_security_profile option \<Rightarrow> error + string" where
  "get_ciphers T K sec_profile =
     (case sec_profile of
        None \<Rightarrow> Inr (DEFAULT_SSL_CIPHERS K)
      | Some p \<Rightarrow>
          (case profile_type p of
             None \<Rightarrow> Inr (DEFAULT_SSL_CIPHERS K)
           | Some pt \<Rightarrow> tls_ciphers_as_string T (ciphers p) pt))"

section \<open>Server launch\<close>

text \<open>
  \<open>start_uvicorn\<close> assembles the keyword arguments of \<open>uvicorn.run\<close> and calls it. The
  server runtime is external; the model returns the arguments of that call, or the
  exception raised before the call is reached.
\<close>

record uvicorn_args =
  app :: string
  host :: string
  port :: int
  workers :: int
  log_level :: int
  ssl_keyfile :: "path option"
  ssl_certfile :: "path option"
  ssl_keyfile_password :: "string option"
  ssl_version :: int
  ssl_ciphers :: string
  access_log :: bool

definition start_uvicorn :: "tls \<Rightarrow> constants \<Rightarrow> config \<Rightarrow> error + uvicorn_args" where
  "start_uvicorn T K cfg =
     (let host' = (if run_on_localhost (dev_config cfg) then ''localhost'' else ''0.0.0.0'');
          port' = (if disable_tls (dev_config cfg) then 8080 else 8443);
          log_level' = uvicorn_log_level (logging_config (ols_config cfg));
          ssl_keyfile' = tls_key_path (tls_config (ols_config cfg));
          ssl_certfile' = tls_certificate_path (tls_config (ols_config cfg));
          ssl_keyfile_password' = tls_key_password (tls_config (ols_config cfg));
          sec_profile = tls_security_profile (ols_config cfg)
      in case get_ssl_version T K sec_profile of
           Inl e \<Rightarrow> Inl e
         | Inr ssl_version' \<Rightarrow>
             (case get_ciphers T K sec_profile of
                Inl e \<Rightarrow> Inl e
              | Inr ssl_ciphers' \<Rightarrow>
                  Inr \<lparr>app = ''ols.app.main:app'',
                       host = host',
                       port = port',
                       workers = max_workers (ols_config cfg),
                       log_level = log_level',
                       ssl_keyfile = ssl_keyfile',
                       ssl_certfile = ssl_certfile',
                       ssl_keyfile_password = ssl_keyfile_password',
                       ssl_version = ssl_version',
                       ssl_ciphers = ssl_ciphers',
                       access_log = (log_level' < logging_INFO)\<rparr>))"

section \<open>Certificate store\<close>

subsection \<open>Files, the logger and the libraries\<close>

text \<open>
  The state that the certificate functions read and change: the contents of the readable
  files, the paths that can be opened for writing, and the records passed to the logger.
  Opening a path outside \<open>files\<close> for reading raises an OSError; so does opening a path
  for writing that is not \<open>writable\<close>.
\<close>

datatype log_level = DEBUG | INFO | WARNING

datatype log_arg = Str string | Num nat

type_synonym log_record = "log_level \<times> string \<times> log_arg list"

record world =
  files :: "path \<rightharpoonup> bytes"
  writable :: "path \<Rightarrow> bool"
  logged :: "log_record list"

definition emit :: "log_level \<Rightarrow> string \<Rightarrow> log_arg list \<Rightarrow> world \<Rightarrow> world" where
  "emit lvl msg args w = w\<lparr>logged := logged w @ [(lvl, msg, args)]\<rparr>"

text \<open>\<open>open(p, "rb").read()\<close>\<close>

definition read_rb :: "world \<Rightarrow> path \<Rightarrow> error + bytes" where
  "read_rb w p = (case files w p of None \<Rightarrow> Inl (OSError p) | Some d \<Rightarrow> Inr d)"

text \<open>\<open>open(p, "ab").write(d)\<close>: the file is created when it does not exist.\<close>

definition write_ab :: "world \<Rightarrow> path \<Rightarrow> bytes \<Rightarrow> error + world" where
  "write_ab w p d =
     (if \<not> writable w p then Inl (OSError p)
      else Inr (w\<lparr>files := (files w)(p \<mapsto> (case files w p of None \<Rightarrow> [] | Some s \<Rightarrow> s) @ d)\<rparr>))"

text \<open>
  \<open>shutil.copyfile(src, dst)\<close> of the standard library: it refuses to copy a file onto
  itself, reads the source and overwrites the destination.
\<close>

definition shutil_copyfile :: "world \<Rightarrow> path \<Rightarrow> path \<Rightarrow> error + world" where
  "shutil_copyfile w src dst =
     (case files w src of
        None \<Rightarrow> Inl (OSError src)
      | Some d \<Rightarrow>
          if src = dst then Inl (SameFileError src dst)
          else if \<not> writable w dst then Inl (OSError dst)
          else Inr (w\<lparr>files := (files w)(dst \<mapsto> d)\<rparr>))"

text \<open>\<open>os.path.join(a, b)\<close> of the standard library, on POSIX.\<close>

definition os_path_join :: "path \<Rightarrow> path \<Rightarrow> path" where
  "os_path_join a b =
     (if (case b of [] \<Rightarrow> False | c # _ \<Rightarrow> c = CHR ''/'') then b
      else if a = [] \<or> last a = CHR ''/'' then a @ b
      else a @ ''/'' @ b)"

text \<open>
  The two PEM loaders of \<open>cryptography.x509\<close>. The library is external, so the loaders
  are parameters: \<open>load_pem_x509_certificate\<close> gives the certificate of a byte string,
  \<open>load_pem_x509_certificates\<close> the sequence of all certificates in it, and \<open>None\<close>
  stands for the ValueError either raises on bytes it cannot parse. Equality on the
  certificate type \<open>'c\<close> is the equality of the library's certificate objects.
\<close>

record 'c x509 =
  load_pem_x509_certificate :: "bytes \<Rightarrow> 'c option"
  load_pem_x509_certificates :: "bytes \<Rightarrow> 'c list option"

subsection \<open>\<open>add_ca_to_certificates_store\<close>\<close>

definition add_ca_to_certificates_store ::
  "'c x509 \<Rightarrow> world \<Rightarrow> path \<Rightarrow> path \<Rightarrow> error + world" where
  "add_ca_to_certificates_store X w cert_path cert_location =
     (let w1 = emit DEBUG ''Certifications store location: %s'' [Str cert_location] w;
          w2 = emit INFO ''Adding certificate '%s' to certificates store'' [Str cert_path] w1
      in case read_rb w2 cert_path of
           Inl e \<Rightarrow> Inl e
         | Inr new_certificate_data \<Rightarrow>
        (case load_pem_x509_certificate X new_certificate_data of
           None \<Rightarrow> Inl ValueError
         | Some new_cert \<Rightarrow>
        (case read_rb w2 cert_location of
           Inl e \<Rightarrow> Inl e
         | Inr certifi_certs_data \<Rightarrow>
        (case load_pem_x509_certificates X certifi_certs_data of
           None \<Rightarrow> Inl ValueError
         | Some certifi_certs \<Rightarrow>
             if new_cert \<in> set certifi_certs
             then Inr (emit WARNING ''Certificate '%s' is already in certificates store''
                         [Str cert_path] w2)
             else
               (case write_ab w2 cert_location new_certificate_data of
                  Inl e \<Rightarrow> Inl e
                | Inr w3 \<Rightarrow>
                    Inr (emit DEBUG ''Written certificate with length %d bytes''
                           [Num (length new_certificate_data)] w3))))))"

subsection \<open>\<open>generate_certificates_file\<close>\<close>

text \<open>The \<open>for\<close> loop over \<open>ols_config.extra_ca\<close>: the first exception ends it.\<close>

fun add_extra_cas :: "'c x509 \<Rightarrow> world \<Rightarrow> path list \<Rightarrow> path \<Rightarrow> error + world" where
  "add_extra_cas X w [] destination_file = Inr w"
| "add_extra_cas X w (certificate_path # rest) destination_file =
     (case add_ca_to_certificates_store X w certificate_path destination_file of
        Inl e \<Rightarrow> Inl e
      | Inr w' \<Rightarrow> add_extra_cas X w' rest destination_file)"

text \<open>
  \<open>certifi_where\<close> is the path that \<open>certifi.where()\<close> returns. The function has no
  \<open>return\<close> statement: its value is Python's \<open>None\<close>, the first component of the result
  (a returned path would be \<open>Some\<close> of it).
\<close>

definition generate_certificates_file ::
  "'c x509 \<Rightarrow> constants \<Rightarrow> path \<Rightarrow> ols_config \<Rightarrow> world \<Rightarrow> error + (path option \<times> world)" where
  "generate_certificates_file X K certifi_where ols_cfg w =
     (let certificate_directory' = certificate_directory ols_cfg;
          w1 = emit INFO ''Generating certificates file into directory %s''
                 [Str certificate_directory'] w;
          destination_file =
            os_path_join certificate_directory' (CERTIFICATE_STORAGE_FILENAME K);
          certifi_cert_location = certifi_where;
          w2 = emit DEBUG ''Copying certifi certificates file from %s into %s''
                 [Str certifi_cert_location, Str destination_file] w1
      in case shutil_copyfile w2 certifi_cert_location destination_file of
           Inl e \<Rightarrow> Inl e
         | Inr w3 \<Rightarrow>
             (case add_extra_cas X w3 (extra_ca ols_cfg) destination_file of
                Inl e \<Rightarrow> Inl e
              | Inr w4 \<Rightarrow> Inr (None, w4)))"

section \<open>The TLS helper module after the specification\<close>

text \<open>
  The policy tables of the TLS helper module: the profile names it recognises, the name
  of the custom profile, each named profile's default minimum TLS version and fixed
  cipher list, the protocol-version value of each abstract TLS version, and the
  separator each profile joins its ciphers with. The specification gives no table
  entries, so the tables are parameters.
\<close>

record tls_policy =
  known_profiles :: "string list"
  custom_profile :: string
  policy_min_version :: "string \<rightharpoonup> string"
  protocol_version :: "string \<rightharpoonup> int"
  policy_ciphers :: "string \<rightharpoonup> string list"
  cipher_separator :: "string \<Rightarrow> string"

fun join_with :: "string \<Rightarrow> string list \<Rightarrow> string" where
  "join_with sep [] = []"
| "join_with sep [x] = x"
| "join_with sep (x # y # ys) = x @ sep @ join_with sep (y # ys)"

text \<open>
  Modelled from the spec: \<open>tls.min_tls_version\<close> of \<open>ols.utils.tls\<close>, which is not part
  of \<open>runner.py\<close>. Section 4.2: the minimum TLS version comes "first from
  \<open>profile.min_tls_version\<close> if explicitly set, otherwise from the named profile's policy
  default"; an unrecognized \<open>profile_type\<close> "fails with a ConfigurationError".
\<close>

definition spec_min_tls_version ::
  "tls_policy \<Rightarrow> string option \<Rightarrow> string \<Rightarrow> error + string" where
  "spec_min_tls_version P specified pt =
     (if pt \<notin> set (known_profiles P) then Inl ConfigurationError
      else case specified of
             Some v \<Rightarrow> Inr v
           | None \<Rightarrow>
               (case policy_min_version P pt of
                  None \<Rightarrow> Inl ConfigurationError
                | Some v \<Rightarrow> Inr v))"

text \<open>
  Modelled from the spec: \<open>tls.ssl_tls_version\<close> of \<open>ols.utils.tls\<close>, which is not part
  of \<open>runner.py\<close>. Section 4.2: it "maps that abstract minimum version to the concrete
  protocol-version enumeration value"; an unmapped \<open>min_tls_version\<close> "fails with a
  ConfigurationError".
\<close>

definition spec_ssl_tls_version :: "tls_policy \<Rightarrow> string \<Rightarrow> error + int" where
  "spec_ssl_tls_version P v =
     (case protocol_version P v of None \<Rightarrow> Inl ConfigurationError | Some n \<Rightarrow> Inr n)"

text \<open>
  Modelled from the spec: \<open>tls.ciphers_as_string\<close> of \<open>ols.utils.tls\<close>, which is not part
  of \<open>runner.py\<close>. Section 4.2: the cipher list comes "from \<open>profile.ciphers\<close> when the
  profile type is custom, otherwise from the named profile's fixed cipher policy", and is
  serialized "order-preserving" with the "profile-defined separator"; an unrecognized
  \<open>profile_type\<close> "fails with a ConfigurationError".
\<close>

definition spec_ciphers_as_string ::
  "tls_policy \<Rightarrow> string list \<Rightarrow> string \<Rightarrow> error + string" where
  "spec_ciphers_as_string P cs pt =
     (if pt \<notin> set (known_profiles P) then Inl ConfigurationError
      else if pt = custom_profile P then Inr (join_with (cipher_separator P pt) cs)
      else case policy_ciphers P pt of
             None \<Rightarrow> Inl ConfigurationError
           | Some l \<Rightarrow> Inr (join_with (cipher_separator P pt) l))"

text \<open>
  Modelled from the spec: the module \<open>ols.utils.tls\<close> as \<open>runner.py\<close> calls it, made of
  the three functions above.
\<close>

definition spec_tls :: "tls_policy \<Rightarrow> tls" where
  "spec_tls P =
     \<lparr>tls_min_tls_version = spec_min_tls_version P,
      tls_ssl_tls_version = spec_ssl_tls_version P,
      tls_ciphers_as_string = spec_ciphers_as_string P\<rparr>"

section \<open>The merged store in the words of the specification\<close>

text \<open>
  The specification describes the destination file as the base bundle "plus all distinct
  extras, in the order processed". For a list of extras, each given as its raw bytes and
  its certificate, \<open>appended cs xs\<close> is the list of those that are new when their turn
  comes, \<open>cs\<close> being the certificates already in the store.
\<close>

fun appended :: "'c list \<Rightarrow> (bytes \<times> 'c) list \<Rightarrow> (bytes \<times> 'c) list" where
  "appended cs [] = []"
| "appended cs ((d, c) # xs) =
     (if c \<in> set cs then appended cs xs else (d, c) # appended (cs @ [c]) xs)"

text \<open>
  The extras \<open>xs\<close>, each given as its raw bytes \<open>d\<close> and its certificate \<open>c\<close>, are
  single-certificate files for the loaders, on a store with the bytes \<open>s\<close> and the
  certificates \<open>cs\<close>: the single-certificate loader reads \<open>c\<close> from \<open>d\<close>, and when the
  build appends \<open>d\<close> to the store as it then stands, the sequence loader reads from the
  result the certificates of that store followed by \<open>c\<close>. The condition speaks of the
  stores that the build reaches and of no other byte string.
\<close>

fun single_certificate_extras ::
  "'c x509 \<Rightarrow> bytes \<Rightarrow> 'c list \<Rightarrow> (bytes \<times> 'c) list \<Rightarrow> bool" where
  "single_certificate_extras X s cs [] = True"
| "single_certificate_extras X s cs ((d, c) # xs) =
     (load_pem_x509_certificate X d = Some c \<and>
      (if c \<in> set cs then single_certificate_extras X s cs xs
       else load_pem_x509_certificates X (s @ d) = Some (cs @ [c]) \<and>
            single_certificate_extras X (s @ d) (cs @ [c]) xs))"

section \<open>Example inputs\<close>

text \<open>
  Concrete inputs on which the theorems below are evaluated. The certificate format of
  the examples is a stand-in for PEM in which every byte is one certificate: the
  single-certificate loader reads the first byte, the sequence loader reads all bytes,
  and neither accepts the empty string.
\<close>

definition example_x509 :: "char x509" where
  "example_x509 =
     \<lparr>load_pem_x509_certificate = (\<lambda>d. case d of [] \<Rightarrow> None | c # _ \<Rightarrow> Some c),
      load_pem_x509_certificates = (\<lambda>s. if s = [] then None else Some s)\<rparr>"

definition example_constants :: constants where
  "example_constants =
     \<lparr>CERTIFICATE_STORAGE_FILENAME = ''store.pem'',
      DEFAULT_SSL_VERSION = 17,
      DEFAULT_SSL_CIPHERS = ''DEFAULT''\<rparr>"

definition example_policy :: tls_policy where
  "example_policy =
     \<lparr>known_profiles = [''old'', ''intermediate'', ''modern'', ''custom''],
      custom_profile = ''custom'',
      policy_min_version =
        [''old'' \<mapsto> ''TLS10'', ''intermediate'' \<mapsto> ''TLS12'', ''modern'' \<mapsto> ''TLS13''],
      protocol_version =
        [''TLS10'' \<mapsto> 769, ''TLS11'' \<mapsto> 770, ''TLS12'' \<mapsto> 771, ''TLS13'' \<mapsto> 772],
      policy_ciphers =
        [''old'' \<mapsto> [''AES128'', ''DES3''], ''intermediate'' \<mapsto> [''AES128''],
         ''modern'' \<mapsto> [''AES256'', ''CHACHA20'']],
      cipher_separator = (\<lambda>_. '':'')\<rparr>"

definition example_config :: "bool \<Rightarrow> bool \<Rightarrow> int \<Rightarrow> int \<Rightarrow> path list \<Rightarrow> config" where
  "example_config localhost no_tls lvl n extras =
     \<lparr>dev_config = \<lparr>run_on_localhost = localhost, disable_tls = no_tls\<rparr>,
      ols_config =
        \<lparr>certificate_directory = ''/t'',
         extra_ca = extras,
         logging_config = \<lparr>uvicorn_log_level = lvl\<rparr>,
         tls_config =
           \<lparr>tls_key_path = Some ''/k'', tls_certificate_path = Some ''/c'',
            tls_key_password = None\<rparr>,
         tls_security_profile = None,
         max_workers = n\<rparr>\<rparr>"

definition example_world :: world where
  "example_world =
     \<lparr>files = [''/base'' \<mapsto> ''AB'', ''/c1'' \<mapsto> ''C'', ''/c2'' \<mapsto> ''D'', ''/dup'' \<mapsto> ''B'',
               ''/bad'' \<mapsto> []],
      writable = (\<lambda>p. p = ''/t/store.pem''),
      logged = []\<rparr>"

text \<open>The example world after an earlier start, which left a store behind.\<close>

definition example_store_world :: world where
  "example_store_world =
     example_world\<lparr>files := (files example_world)(''/t/store.pem'' \<mapsto> ''AB'')\<rparr>"

text \<open>
  The example world with one more extra file, which holds two certificates: C, and B of
  the base bundle.
\<close>

definition example_bundle_world :: world where
  "example_bundle_world =
     example_world\<lparr>files := (files example_world)(''/cb'' \<mapsto> ''CB'')\<rparr>"

text \<open>
  A second certificate format for the examples, with the framing of PEM: a certificate is
  a block \<open><body>\<close>, the opening and closing brackets standing for the BEGIN and END
  lines, and it is identified by its body. \<open>framed_blocks\<close> reads the blocks of a byte
  string: bytes between blocks are skipped, a block opened inside a block is an error,
  and a last block that is never closed is dropped. The sequence loader gives all blocks,
  the single-certificate loader the first, and neither accepts bytes without a block.
\<close>

fun framed_blocks :: "string option \<Rightarrow> string \<Rightarrow> string list option" where
  "framed_blocks None [] = Some []"
| "framed_blocks (Some b) [] = Some []"
| "framed_blocks None (x # xs) =
     (if x = CHR ''<'' then framed_blocks (Some []) xs else framed_blocks None xs)"
| "framed_blocks (Some b) (x # xs) =
     (if x = CHR ''>'' then map_option ((#) b) (framed_blocks None xs)
      else if x = CHR ''<'' then None
      else framed_blocks (Some (b @ [x])) xs)"

definition framed_x509 :: "string x509" where
  "framed_x509 =
     \<lparr>load_pem_x509_certificate =
        (\<lambda>d. case framed_blocks None d of Some (c # _) \<Rightarrow> Some c | _ \<Rightarrow> None),
      load_pem_x509_certificates =
        (\<lambda>s. case framed_blocks None s of Some (c # cs) \<Rightarrow> Some (c # cs) | _ \<Rightarrow> None)\<rparr>"

definition example_framed_world :: world where
  "example_framed_world =
     \<lparr>files = [''/base'' \<mapsto> ''<A><B>'', ''/c1'' \<mapsto> ''<C>'', ''/c2'' \<mapsto> ''<D>''],
      writable = (\<lambda>p. p = ''/t/store.pem''),
      logged = []\<rparr>"

text \<open>The framed example world after an earlier start, which left a store behind.\<close>

definition example_framed_store_world :: world where
  "example_framed_store_world =
     example_framed_world
       \<lparr>files := (files example_framed_world)(''/t/store.pem'' \<mapsto> ''<A><B><Z>'')\<rparr>"

section \<open>Auxiliary lemmas\<close>

subsection \<open>One certificate\<close>

lemma emit_simps [simp]:
  "files (emit l m a w) = files w"
  "writable (emit l m a w) = writable w"
  "logged (emit l m a w) = logged w @ [(l, m, a)]"
  by (simp_all add: emit_def)

lemma add_ca_Inr_elim:
  assumes "add_ca_to_certificates_store X w p dest = Inr w'"
  obtains d c s cs where
    "files w p = Some d" "load_pem_x509_certificate X d = Some c"
    "files w dest = Some s" "load_pem_x509_certificates X s = Some cs"
    "writable w' = writable w"
    "c \<in> set cs \<and> files w' = files w \<or>
     c \<notin> set cs \<and> writable w dest \<and> files w' = (files w)(dest \<mapsto> s @ d)"
  using assms
  by (auto simp: add_ca_to_certificates_store_def read_rb_def write_ab_def Let_def
           split: option.splits if_splits sum.splits)

lemma add_ca_files_other:
  assumes "add_ca_to_certificates_store X w p dest = Inr w'" "q \<noteq> dest"
  shows "files w' q = files w q"
  using assms(1) by (rule add_ca_Inr_elim) (use assms(2) in auto)

lemma add_ca_writable:
  assumes "add_ca_to_certificates_store X w p dest = Inr w'"
  shows "writable w' = writable w"
  using assms by (rule add_ca_Inr_elim)

lemma add_ca_dest_extends:
  assumes "add_ca_to_certificates_store X w p dest = Inr w'"
  shows "\<exists>s t. files w dest = Some s \<and> files w' dest = Some (s @ t)"
  using assms by (rule add_ca_Inr_elim) auto



lemma add_ca_step:
  assumes "files w cert_path = Some d"
    and "load_pem_x509_certificate X d = Some c"
    and "files w cert_location = Some s"
    and "load_pem_x509_certificates X s = Some cs"
  shows "(c \<in> set cs \<longrightarrow>
            (\<exists>w'. add_ca_to_certificates_store X w cert_path cert_location = Inr w' \<and>
                  files w' = files w)) \<and>
         (c \<notin> set cs \<and> writable w cert_location \<longrightarrow>
            (\<exists>w'. add_ca_to_certificates_store X w cert_path cert_location = Inr w' \<and>
                  files w' = (files w)(cert_location \<mapsto> s @ d)))"
  using assms
  by (simp add: add_ca_to_certificates_store_def read_rb_def write_ab_def Let_def)

subsection \<open>The loop over the extra certificates\<close>

lemma add_extra_cas_files_other:
  assumes "add_extra_cas X w ps dest = Inr w'" "q \<noteq> dest"
  shows "files w' q = files w q"
  using assms
proof (induction ps arbitrary: w)
  case Nil
  then show ?case by simp
next
  case (Cons p ps)
  then show ?case
    by (auto split: sum.splits dest: add_ca_files_other)
qed

lemma add_extra_cas_dest_extends:
  assumes "add_extra_cas X w ps dest = Inr w'" "files w dest = Some s"
  shows "\<exists>t. files w' dest = Some (s @ t)"
  using assms
proof (induction ps arbitrary: w s)
  case Nil
  then show ?case by simp
next
  case (Cons p ps)
  from Cons.prems obtain w1 where
    w1: "add_ca_to_certificates_store X w p dest = Inr w1"
    and rest: "add_extra_cas X w1 ps dest = Inr w'"
    by (auto split: sum.splits)
  from add_ca_dest_extends [OF w1] Cons.prems(2) obtain t where
    "files w1 dest = Some (s @ t)" by auto
  from Cons.IH [OF rest this] show ?case by auto
qed



lemma add_extra_cas_merge:
  assumes "list_all2 (\<lambda>p (d, c). p \<noteq> dest \<and> files w p = Some d) ps xs"
    and "single_certificate_extras X s cs xs"
    and "files w dest = Some s"
    and "load_pem_x509_certificates X s = Some cs"
    and "writable w dest"
  shows "\<exists>w'. add_extra_cas X w ps dest = Inr w' \<and>
              files w' dest = Some (s @ concat (map fst (appended cs xs))) \<and>
              load_pem_x509_certificates X (s @ concat (map fst (appended cs xs))) =
                Some (cs @ map snd (appended cs xs))"
  using assms
proof (induction ps arbitrary: xs w s cs)
  case Nil
  then show ?case by simp
next
  case (Cons p ps)
  from Cons.prems(1) obtain d c xs' where x: "xs = (d, c) # xs'"
    and p: "p \<noteq> dest" "files w p = Some d"
    and tl: "list_all2 (\<lambda>p (d, c). p \<noteq> dest \<and> files w p = Some d) ps xs'"
    by (auto simp: list_all2_Cons1)
  from Cons.prems(2) x have one: "load_pem_x509_certificate X d = Some c"
    by simp
  note step = add_ca_step [OF p(2) one Cons.prems(3) Cons.prems(4)]
  show ?case
  proof (cases "c \<in> set cs")
    case True
    with step obtain w1 where w1: "add_ca_to_certificates_store X w p dest = Inr w1"
      and f1: "files w1 = files w" by auto
    have l: "list_all2 (\<lambda>p (d, c). p \<noteq> dest \<and> files w1 p = Some d) ps xs'"
      using tl f1 by simp
    have sc: "single_certificate_extras X s cs xs'"
      using Cons.prems(2) x True by simp
    have wr: "writable w1 dest" using add_ca_writable [OF w1] Cons.prems(5) by simp
    have fd: "files w1 dest = Some s" using f1 Cons.prems(3) by simp
    from Cons.IH [OF l sc fd Cons.prems(4) wr] w1 True x show ?thesis by simp
  next
    case False
    with step Cons.prems(5) obtain w1 where
      w1: "add_ca_to_certificates_store X w p dest = Inr w1"
      and f1: "files w1 = (files w)(dest \<mapsto> s @ d)" by auto
    have l: "list_all2 (\<lambda>p (d, c). p \<noteq> dest \<and> files w1 p = Some d) ps xs'"
      using tl f1 by (auto elim!: list_all2_mono)
    have ld: "load_pem_x509_certificates X (s @ d) = Some (cs @ [c])"
      and sc: "single_certificate_extras X (s @ d) (cs @ [c]) xs'"
      using Cons.prems(2) x False by simp_all
    have wr: "writable w1 dest" using add_ca_writable [OF w1] Cons.prems(5) by simp
    have fd: "files w1 dest = Some (s @ d)" using f1 by simp
    from Cons.IH [OF l sc fd ld wr] w1 False x show ?thesis by simp
  qed
qed

lemma appended_distinct:
  "distinct cs \<Longrightarrow> distinct (cs @ map snd (appended cs xs))"
proof (induction cs xs rule: appended.induct)
  case (1 cs)
  then show ?case by simp
next
  case (2 cs d c xs)
  then show ?case by (cases "c \<in> set cs") auto
qed

lemma appended_set:
  "set (cs @ map snd (appended cs xs)) = set cs \<union> snd ` set xs"
proof (induction cs xs rule: appended.induct)
  case (1 cs)
  then show ?case by simp
next
  case (2 cs d c xs)
  then show ?case by (cases "c \<in> set cs") auto
qed

subsection \<open>The whole build\<close>

lemma shutil_copyfile_Inr:
  assumes "shutil_copyfile w src dst = Inr w3"
  shows "\<exists>d. files w src = Some d \<and> src \<noteq> dst \<and> writable w dst \<and>
             files w3 = (files w)(dst \<mapsto> d) \<and> writable w3 = writable w"
  using assms
  by (auto simp: shutil_copyfile_def split: option.splits if_splits)


lemma shutil_copyfile_ok:
  assumes "files w src = Some d" "src \<noteq> dst" "writable w dst"
  shows "\<exists>w3. shutil_copyfile w src dst = Inr w3 \<and>
              files w3 = (files w)(dst \<mapsto> d) \<and> writable w3 = writable w"
  using assms by (simp add: shutil_copyfile_def)

lemma generate_as_copy_add:
  "\<exists>w2. files w2 = files w \<and> writable w2 = writable w \<and>
        generate_certificates_file X K certifi cfg w =
          (case shutil_copyfile w2 certifi
                  (os_path_join (certificate_directory cfg) (CERTIFICATE_STORAGE_FILENAME K)) of
             Inl e \<Rightarrow> Inl e
           | Inr w3 \<Rightarrow>
               (case add_extra_cas X w3 (extra_ca cfg)
                       (os_path_join (certificate_directory cfg)
                          (CERTIFICATE_STORAGE_FILENAME K)) of
                  Inl e \<Rightarrow> Inl e
                | Inr w4 \<Rightarrow> Inr (None, w4)))"
  unfolding generate_certificates_file_def Let_def
  apply (intro exI conjI)
    prefer 3
    apply (rule refl)
   apply simp_all
  done

lemma generate_Inr_elim:
  assumes "generate_certificates_file X K certifi cfg w = Inr (r, w')"
  obtains B w3 where "r = None" "files w certifi = Some B"
    "certifi \<noteq> os_path_join (certificate_directory cfg) (CERTIFICATE_STORAGE_FILENAME K)"
    "writable w (os_path_join (certificate_directory cfg) (CERTIFICATE_STORAGE_FILENAME K))"
    "files w3 = (files w)(os_path_join (certificate_directory cfg) (CERTIFICATE_STORAGE_FILENAME K) \<mapsto> B)"
    "writable w3 = writable w"
    "add_extra_cas X w3 (extra_ca cfg)
       (os_path_join (certificate_directory cfg) (CERTIFICATE_STORAGE_FILENAME K)) = Inr w'"
proof -
  let ?dest = "os_path_join (certificate_directory cfg) (CERTIFICATE_STORAGE_FILENAME K)"
  from generate_as_copy_add [of w X K certifi cfg] obtain w2 where
    w2: "files w2 = files w" "writable w2 = writable w"
    and gen: "generate_certificates_file X K certifi cfg w =
          (case shutil_copyfile w2 certifi ?dest of
             Inl e \<Rightarrow> Inl e
           | Inr w3 \<Rightarrow>
               (case add_extra_cas X w3 (extra_ca cfg) ?dest of
                  Inl e \<Rightarrow> Inl e
                | Inr w4 \<Rightarrow> Inr (None, w4)))"
    by blast
  from gen assms obtain w3 where
    copy: "shutil_copyfile w2 certifi ?dest = Inr w3"
    and add: "add_extra_cas X w3 (extra_ca cfg) ?dest = Inr w'"
    and r: "r = None"
    by (auto split: sum.splits)
  from shutil_copyfile_Inr [OF copy] w2 obtain B where
    "files w certifi = Some B" "certifi \<noteq> ?dest" "writable w ?dest"
    "files w3 = (files w)(?dest \<mapsto> B)" "writable w3 = writable w"
    by auto
  with r add show thesis by (auto intro: that)
qed

lemma generate_copy_then_add:
  assumes "files w certifi = Some B"
    and "certifi \<noteq> os_path_join (certificate_directory cfg) (CERTIFICATE_STORAGE_FILENAME K)"
    and "writable w (os_path_join (certificate_directory cfg) (CERTIFICATE_STORAGE_FILENAME K))"
  shows "\<exists>w3. files w3 = (files w)(os_path_join (certificate_directory cfg)
                                      (CERTIFICATE_STORAGE_FILENAME K) \<mapsto> B) \<and>
              writable w3 = writable w \<and>
              generate_certificates_file X K certifi cfg w =
                (case add_extra_cas X w3 (extra_ca cfg)
                        (os_path_join (certificate_directory cfg)
                           (CERTIFICATE_STORAGE_FILENAME K)) of
                   Inl e \<Rightarrow> Inl e | Inr w4 \<Rightarrow> Inr (None, w4))"
proof -
  let ?dest = "os_path_join (certificate_directory cfg) (CERTIFICATE_STORAGE_FILENAME K)"
  from generate_as_copy_add [of w X K certifi cfg] obtain w2 where
    w2: "files w2 = files w" "writable w2 = writable w"
    and gen: "generate_certificates_file X K certifi cfg w =
          (case shutil_copyfile w2 certifi ?dest of
             Inl e \<Rightarrow> Inl e
           | Inr w3 \<Rightarrow>
               (case add_extra_cas X w3 (extra_ca cfg) ?dest of
                  Inl e \<Rightarrow> Inl e
                | Inr w4 \<Rightarrow> Inr (None, w4)))"
    by blast
  from shutil_copyfile_ok [of w2 certifi B ?dest] assms w2 obtain w3 where
    "shutil_copyfile w2 certifi ?dest = Inr w3"
    "files w3 = (files w)(?dest \<mapsto> B)" "writable w3 = writable w"
    by auto
  with gen show ?thesis by auto
qed


lemma generate_merge:
  assumes "dest = os_path_join (certificate_directory cfg) (CERTIFICATE_STORAGE_FILENAME K)"
    and "files w certifi = Some B"
    and "certifi \<noteq> dest"
    and "writable w dest"
    and "load_pem_x509_certificates X B = Some cs"
    and "list_all2 (\<lambda>p (d, c). p \<noteq> dest \<and> files w p = Some d) (extra_ca cfg) xs"
    and "single_certificate_extras X B cs xs"
  shows "\<exists>w'. generate_certificates_file X K certifi cfg w = Inr (None, w') \<and>
              files w' dest = Some (B @ concat (map fst (appended cs xs))) \<and>
              load_pem_x509_certificates X (B @ concat (map fst (appended cs xs))) =
                Some (cs @ map snd (appended cs xs))"
proof -
  from generate_copy_then_add [of w certifi B cfg K X] assms(1-4)
  obtain w3 where f3: "files w3 = (files w)(dest \<mapsto> B)"
    and wr3: "writable w3 = writable w"
    and gen: "generate_certificates_file X K certifi cfg w =
                (case add_extra_cas X w3 (extra_ca cfg) dest of
                   Inl e \<Rightarrow> Inl e | Inr w4 \<Rightarrow> Inr (None, w4))"
    by auto
  have l: "list_all2 (\<lambda>p (d, c). p \<noteq> dest \<and> files w3 p = Some d) (extra_ca cfg) xs"
    using assms(6) f3 by (auto elim!: list_all2_mono)
  have fd: "files w3 dest = Some B" using f3 by simp
  have wr: "writable w3 dest" using wr3 assms(4) by simp
  from add_extra_cas_merge [OF l assms(7) fd assms(5) wr] gen show ?thesis by auto
qed

subsection \<open>The cipher resolver\<close>

lemma get_ciphers_ignores_min_tls_version:
  "get_ciphers T K (Some (p\<lparr>min_tls_version := v\<rparr>)) = get_ciphers T K (Some p)"
  by (simp add: get_ciphers_def split: option.splits)

section \<open>Claims about the server launch\<close>

text \<open>
  Claim C1: the server launch requests exactly one worker whatever the configuration
  says. The comment at the head of \<open>start_uvicorn\<close> says "use workers=1", yet the call
  passes \<open>config.ols_config.max_workers\<close> unchanged: with \<open>max_workers = 4\<close> the launch
  requests four workers.
\<close>

theorem start_uvicorn_workers_passed_through:
  "map_sum id workers
     (start_uvicorn (spec_tls example_policy) example_constants
        (example_config False False 30 4 [])) = Inr 4"
  by (simp add: start_uvicorn_def get_ssl_version_def get_ciphers_def example_config_def)

text \<open>
  Claim C7: the server binds to localhost on port 8080 when both the local-dev flag and
  the TLS-disabled flag are set, and to 0.0.0.0 on port 8443 otherwise. The code chooses
  the host from \<open>run_on_localhost\<close> alone and the port from \<open>disable_tls\<close> alone: with
  \<open>run_on_localhost\<close> set and \<open>disable_tls\<close> unset, the flags are not both set and the
  server still binds to localhost, on port 8443.
\<close>

theorem start_uvicorn_host_port_counterexample:
  "\<not> (run_on_localhost (dev_config (example_config True False 30 1 [])) \<and>
      disable_tls (dev_config (example_config True False 30 1 []))) \<and>
   map_sum id host
     (start_uvicorn (spec_tls example_policy) example_constants
        (example_config True False 30 1 [])) = Inr ''localhost'' \<and>
   map_sum id port
     (start_uvicorn (spec_tls example_policy) example_constants
        (example_config True False 30 1 [])) = Inr 8443 \<and>
   ''localhost'' \<noteq> ''0.0.0.0''"
  by (simp add: start_uvicorn_def get_ssl_version_def get_ciphers_def example_config_def)

text \<open>
  Claim C7, amended: on every launch the host is localhost exactly when
  \<open>run_on_localhost\<close> is set and 0.0.0.0 otherwise, and the port is 8080 exactly when
  \<open>disable_tls\<close> is set and 8443 otherwise; the two choices are independent.
\<close>

theorem start_uvicorn_host_port:
  assumes "start_uvicorn T K cfg = Inr a"
  shows "host a = (if run_on_localhost (dev_config cfg) then ''localhost'' else ''0.0.0.0'') \<and>
         port a = (if disable_tls (dev_config cfg) then 8080 else 8443)"
  using assms
  by (auto simp: start_uvicorn_def Let_def split: sum.splits)

text \<open>The amended claim C7 at a configuration with both flags set.\<close>

theorem start_uvicorn_host_port_witness:
  "\<exists>a. start_uvicorn (spec_tls example_policy) example_constants
          (example_config True True 30 1 []) = Inr a \<and>
       host a = ''localhost'' \<and> port a = 8080"
proof -
  obtain a where a: "start_uvicorn (spec_tls example_policy) example_constants
          (example_config True True 30 1 []) = Inr a"
    by (simp add: start_uvicorn_def get_ssl_version_def get_ciphers_def example_config_def)
  from start_uvicorn_host_port [OF a] a show ?thesis
    by (simp add: example_config_def)
qed

text \<open>
  Claim C9: the five TLS arguments of the launch do not depend on \<open>disable_tls\<close>. For
  two configurations that differ only in that flag, either both launches fail with the
  same exception or both succeed with the same \<open>ssl_keyfile\<close>, \<open>ssl_certfile\<close>,
  \<open>ssl_keyfile_password\<close>, \<open>ssl_version\<close> and \<open>ssl_ciphers\<close>; the two argument records
  differ in the port only, which is 8080 on one side and 8443 on the other.
\<close>

theorem start_uvicorn_tls_args_independent_of_disable_tls:
  assumes "c2 = c1\<lparr>dev_config := (dev_config c1)\<lparr>disable_tls := \<not> disable_tls (dev_config c1)\<rparr>\<rparr>"
  shows "rel_sum (=)
           (\<lambda>a1 a2. ssl_keyfile a1 = ssl_keyfile a2 \<and>
                    ssl_certfile a1 = ssl_certfile a2 \<and>
                    ssl_keyfile_password a1 = ssl_keyfile_password a2 \<and>
                    ssl_version a1 = ssl_version a2 \<and>
                    ssl_ciphers a1 = ssl_ciphers a2 \<and>
                    a2 = a1\<lparr>port := port a2\<rparr> \<and>
                    port a1 = (if disable_tls (dev_config c1) then 8080 else 8443) \<and>
                    port a2 = (if disable_tls (dev_config c1) then 8443 else 8080))
           (start_uvicorn T K c1) (start_uvicorn T K c2)"
  unfolding assms
  by (auto simp: start_uvicorn_def Let_def split: sum.splits)

text \<open>Claim C9 at two example configurations that differ in \<open>disable_tls\<close> only.\<close>

theorem start_uvicorn_tls_args_independent_of_disable_tls_witness:
  "\<exists>a1 a2.
     start_uvicorn (spec_tls example_policy) example_constants
       (example_config False False 30 1 []) = Inr a1 \<and>
     start_uvicorn (spec_tls example_policy) example_constants
       (example_config False True 30 1 []) = Inr a2 \<and>
     ssl_keyfile a1 = ssl_keyfile a2 \<and> ssl_certfile a1 = ssl_certfile a2 \<and>
     ssl_keyfile_password a1 = ssl_keyfile_password a2 \<and>
     ssl_version a1 = ssl_version a2 \<and> ssl_ciphers a1 = ssl_ciphers a2 \<and>
     port a1 = 8443 \<and> port a2 = 8080"
proof -
  have c: "example_config False True 30 1 [] =
           (example_config False False 30 1 [])
             \<lparr>dev_config := (dev_config (example_config False False 30 1 []))
                \<lparr>disable_tls := \<not> disable_tls (dev_config (example_config False False 30 1 []))\<rparr>\<rparr>"
    by (simp add: example_config_def)
  obtain a1 where a1: "start_uvicorn (spec_tls example_policy) example_constants
       (example_config False False 30 1 []) = Inr a1"
    by (simp add: start_uvicorn_def get_ssl_version_def get_ciphers_def example_config_def)
  obtain a2 where a2: "start_uvicorn (spec_tls example_policy) example_constants
       (example_config False True 30 1 []) = Inr a2"
    by (simp add: start_uvicorn_def get_ssl_version_def get_ciphers_def example_config_def)
  from start_uvicorn_tls_args_independent_of_disable_tls
         [OF c, of "spec_tls example_policy" example_constants] a1 a2
  show ?thesis by (simp add: example_config_def)
qed

text \<open>
  Claim C10: the access log of the server is enabled if and only if the configured
  Uvicorn log level is strictly below \<open>logging.INFO\<close>; the same level is the
  \<open>log_level\<close> argument of the launch.
\<close>

theorem start_uvicorn_access_log:
  assumes "start_uvicorn T K cfg = Inr a"
  shows "access_log a = (uvicorn_log_level (logging_config (ols_config cfg)) < logging_INFO) \<and>
         access_log a = (log_level a < logging_INFO)"
  using assms
  by (auto simp: start_uvicorn_def Let_def split: sum.splits)

text \<open>Claim C10 at level 10 (access log on) and at level 20 (access log off).\<close>

theorem start_uvicorn_access_log_witness:
  "(\<exists>a. start_uvicorn (spec_tls example_policy) example_constants
          (example_config False False 10 1 []) = Inr a \<and> access_log a) \<and>
   (\<exists>a. start_uvicorn (spec_tls example_policy) example_constants
          (example_config False False 20 1 []) = Inr a \<and> \<not> access_log a)"
proof -
  obtain a1 where a1: "start_uvicorn (spec_tls example_policy) example_constants
       (example_config False False 10 1 []) = Inr a1"
    by (simp add: start_uvicorn_def get_ssl_version_def get_ciphers_def example_config_def)
  obtain a2 where a2: "start_uvicorn (spec_tls example_policy) example_constants
       (example_config False False 20 1 []) = Inr a2"
    by (simp add: start_uvicorn_def get_ssl_version_def get_ciphers_def example_config_def)
  from start_uvicorn_access_log [OF a1] start_uvicorn_access_log [OF a2] a1 a2
  show ?thesis by (simp add: example_config_def logging_INFO_def)
qed

section \<open>Claims about the TLS profile resolution\<close>

text \<open>
  Claim C5: when the security profile is absent, or its \<open>profile_type\<close> is unset,
  \<open>get_ssl_version\<close> returns the default SSL version and \<open>get_ciphers\<close> the default
  cipher specification, and neither raises. This holds for any TLS helper module, since
  neither function calls it on this path.
\<close>

theorem get_defaults_when_profile_unset:
  assumes "sec_profile = None \<or> (\<exists>p. sec_profile = Some p \<and> profile_type p = None)"
  shows "get_ssl_version T K sec_profile = Inr (DEFAULT_SSL_VERSION K) \<and>
         get_ciphers T K sec_profile = Inr (DEFAULT_SSL_CIPHERS K)"
  using assms by (auto simp: get_ssl_version_def get_ciphers_def)

text \<open>Claim C5 at an absent profile and at a profile whose type is unset.\<close>

theorem get_defaults_when_profile_unset_witness:
  "get_ssl_version (spec_tls example_policy) example_constants None = Inr 17 \<and>
   get_ciphers (spec_tls example_policy) example_constants None = Inr ''DEFAULT'' \<and>
   get_ssl_version (spec_tls example_policy) example_constants
     (Some \<lparr>profile_type = None, min_tls_version = Some ''TLS99'', ciphers = [''X'']\<rparr>) = Inr 17 \<and>
   get_ciphers (spec_tls example_policy) example_constants
     (Some \<lparr>profile_type = None, min_tls_version = Some ''TLS99'', ciphers = [''X'']\<rparr>)
     = Inr ''DEFAULT''"
  using get_defaults_when_profile_unset
          [of None "spec_tls example_policy" example_constants]
        get_defaults_when_profile_unset
          [of "Some \<lparr>profile_type = None, min_tls_version = Some ''TLS99'', ciphers = [''X'']\<rparr>"
              "spec_tls example_policy" example_constants]
  by (simp add: example_constants_def)

text \<open>
  Claim C4: a profile with an unrecognized \<open>profile_type\<close>, or with a
  \<open>min_tls_version\<close> that cannot be mapped, makes both \<open>get_ssl_version\<close> and
  \<open>get_ciphers\<close> fail with a ConfigurationError. \<open>get_ciphers\<close> never reads
  \<open>min_tls_version\<close>: for a recognized profile with an unmapped minimum version it
  returns that profile's ciphers.
\<close>

theorem get_ciphers_unmapped_min_version_counterexample:
  "protocol_version example_policy ''TLS99'' = None \<and>
   get_ciphers (spec_tls example_policy) example_constants
     (Some \<lparr>profile_type = Some ''modern'', min_tls_version = Some ''TLS99'', ciphers = []\<rparr>)
     = Inr ''AES256:CHACHA20''"
  by (simp add: get_ciphers_def spec_tls_def spec_ciphers_as_string_def example_policy_def)

text \<open>
  Claim C4, amended: an unrecognized \<open>profile_type\<close> makes both \<open>get_ssl_version\<close> and
  \<open>get_ciphers\<close> fail with a ConfigurationError, and a recognized profile whose
  \<open>min_tls_version\<close> cannot be mapped makes \<open>get_ssl_version\<close> fail with a
  ConfigurationError; neither falls back to a default. The TLS helper module is the one
  modelled from the specification.
\<close>

theorem unresolvable_profile_fails:
  assumes "profile_type p = Some pt"
  shows "(pt \<notin> set (known_profiles P) \<longrightarrow>
            get_ssl_version (spec_tls P) K (Some p) = Inl ConfigurationError \<and>
            get_ciphers (spec_tls P) K (Some p) = Inl ConfigurationError) \<and>
         (pt \<in> set (known_profiles P) \<longrightarrow>
            (\<forall>v. min_tls_version p = Some v \<and> protocol_version P v = None \<longrightarrow>
               get_ssl_version (spec_tls P) K (Some p) = Inl ConfigurationError))"
  using assms
  by (simp add: get_ssl_version_def get_ciphers_def spec_tls_def spec_min_tls_version_def
        spec_ssl_tls_version_def spec_ciphers_as_string_def)

text \<open>The amended claim C4 at an unrecognized profile and at an unmapped version.\<close>

theorem unresolvable_profile_fails_witness:
  "get_ssl_version (spec_tls example_policy) example_constants
     (Some \<lparr>profile_type = Some ''bogus'', min_tls_version = None, ciphers = []\<rparr>)
     = Inl ConfigurationError \<and>
   get_ciphers (spec_tls example_policy) example_constants
     (Some \<lparr>profile_type = Some ''bogus'', min_tls_version = None, ciphers = []\<rparr>)
     = Inl ConfigurationError \<and>
   get_ssl_version (spec_tls example_policy) example_constants
     (Some \<lparr>profile_type = Some ''modern'', min_tls_version = Some ''TLS99'', ciphers = []\<rparr>)
     = Inl ConfigurationError"
  using unresolvable_profile_fails
          [of "\<lparr>profile_type = Some ''bogus'', min_tls_version = None, ciphers = []\<rparr>"
              "''bogus''" example_policy example_constants]
        unresolvable_profile_fails
          [of "\<lparr>profile_type = Some ''modern'', min_tls_version = Some ''TLS99'', ciphers = []\<rparr>"
              "''modern''" example_policy example_constants]
  by (simp add: example_policy_def)

section \<open>Claims about the certificate store\<close>

text \<open>
  Claim C3: when \<open>add_ca_to_certificates_store\<close> has read and parsed the extra
  certificate and the destination file, then, if the certificate equals one already in the
  destination file, the call logs a warning and leaves every file unchanged; otherwise it
  appends exactly the raw bytes of the extra file to the end of the destination file and
  leaves its prefix, and every other file, unchanged.
\<close>

theorem add_ca_to_certificates_store_duplicate_or_append:
  assumes "files w cert_path = Some d"
    and "load_pem_x509_certificate X d = Some c"
    and "files w cert_location = Some s"
    and "load_pem_x509_certificates X s = Some cs"
  shows "(c \<in> set cs \<longrightarrow>
            (\<exists>w'. add_ca_to_certificates_store X w cert_path cert_location = Inr w' \<and>
                  files w' = files w \<and>
                  logged w' = logged w @
                    [(DEBUG, ''Certifications store location: %s'', [Str cert_location]),
                     (INFO, ''Adding certificate '%s' to certificates store'', [Str cert_path]),
                     (WARNING, ''Certificate '%s' is already in certificates store'',
                      [Str cert_path])])) \<and>
         (c \<notin> set cs \<and> writable w cert_location \<longrightarrow>
            (\<exists>w'. add_ca_to_certificates_store X w cert_path cert_location = Inr w' \<and>
                  files w' = (files w)(cert_location \<mapsto> s @ d) \<and>
                  logged w' = logged w @
                    [(DEBUG, ''Certifications store location: %s'', [Str cert_location]),
                     (INFO, ''Adding certificate '%s' to certificates store'', [Str cert_path]),
                     (DEBUG, ''Written certificate with length %d bytes'',
                      [Num (length d)])]))"
  using assms
  by (simp add: add_ca_to_certificates_store_def read_rb_def write_ab_def Let_def)

text \<open>
  Claim C3 on a store holding the certificates A and B: adding B again is skipped with a
  warning, adding C appends it.
\<close>

theorem add_ca_to_certificates_store_duplicate_or_append_witness:
  "(\<exists>w'. add_ca_to_certificates_store example_x509 example_store_world ''/dup''
            ''/t/store.pem'' = Inr w' \<and>
         files w' ''/t/store.pem'' = Some ''AB'' \<and>
         last (logged w') =
           (WARNING, ''Certificate '%s' is already in certificates store'', [Str ''/dup''])) \<and>
   (\<exists>w'. add_ca_to_certificates_store example_x509 example_store_world ''/c1''
            ''/t/store.pem'' = Inr w' \<and>
         files w' ''/t/store.pem'' = Some ''ABC'' \<and>
         last (logged w') = (DEBUG, ''Written certificate with length %d bytes'', [Num 1]))"
proof -
  have f: "files example_store_world ''/dup'' = Some ''B''"
    "files example_store_world ''/c1'' = Some ''C''"
    "files example_store_world ''/t/store.pem'' = Some ''AB''"
    "writable example_store_world ''/t/store.pem''"
    by (simp_all add: example_store_world_def example_world_def)
  have l: "load_pem_x509_certificate example_x509 ''B'' = Some (CHR ''B'')"
    "load_pem_x509_certificate example_x509 ''C'' = Some (CHR ''C'')"
    "load_pem_x509_certificates example_x509 ''AB'' = Some ''AB''"
    by (simp_all add: example_x509_def)
  from add_ca_to_certificates_store_duplicate_or_append [OF f(1) l(1) f(3) l(3)]
       add_ca_to_certificates_store_duplicate_or_append [OF f(2) l(2) f(3) l(3)] f
  show ?thesis by auto
qed

text \<open>
  Claim C2: the build of the trust store is an idempotent merge, in which a certificate
  already present from the base bundle or a prior extra is never appended again.
  \<open>add_ca_to_certificates_store\<close> compares the first certificate of an extra file only
  and appends the whole file: with the base bundle A, B and one extra file that holds C
  and B, the build appends both without a warning, and the store holds B twice.
\<close>

theorem generate_certificates_file_duplicate_counterexample:
  "\<not> isl (generate_certificates_file example_x509 example_constants ''/base''
            (ols_config (example_config False False 30 1 [''/cb''])) example_bundle_world) \<and>
   files (snd (projr (generate_certificates_file example_x509 example_constants ''/base''
            (ols_config (example_config False False 30 1 [''/cb''])) example_bundle_world)))
     ''/t/store.pem'' = Some ''ABCB'' \<and>
   WARNING \<notin> set (map fst (logged (snd (projr
          (generate_certificates_file example_x509 example_constants ''/base''
            (ols_config (example_config False False 30 1 [''/cb''])) example_bundle_world))))) \<and>
   load_pem_x509_certificates example_x509 ''AB'' = Some ''AB'' \<and>
   load_pem_x509_certificates example_x509 ''ABCB'' = Some ''ABCB'' \<and>
   \<not> distinct ''ABCB''"
  by (simp add: generate_certificates_file_def shutil_copyfile_def
        add_ca_to_certificates_store_def read_rb_def write_ab_def Let_def emit_def
        os_path_join_def example_config_def example_constants_def
        example_x509_def example_world_def example_bundle_world_def)

text \<open>
  Claim C2, amended: for extras that each hold a single certificate, the build of the
  trust store is an idempotent merge. Let the base bundle \<open>B\<close> parse to the distinct
  certificates \<open>cs\<close>, and let the extras be single-certificate files on the stores the
  build reaches. Then two builds from any two states that agree on these inputs, whatever
  the destination held before, both succeed and leave byte-identical destination files:
  the base bundle followed by the raw bytes of the extras that were new when their turn
  came. The file parses to the base certificates followed by those extras, without
  duplicates, and contains every extra certificate. With the same certificate given
  twice, one copy of it is appended when the base bundle does not hold it, and none when
  it does.
\<close>

theorem generate_certificates_file_idempotent_merge:
  assumes "dest = os_path_join (certificate_directory cfg) (CERTIFICATE_STORAGE_FILENAME K)"
    and "certifi \<noteq> dest"
    and "load_pem_x509_certificates X B = Some cs"
    and "distinct cs"
    and "single_certificate_extras X B cs xs"
    and "files w1 certifi = Some B" "writable w1 dest"
    and "list_all2 (\<lambda>p (d, c). p \<noteq> dest \<and> files w1 p = Some d) (extra_ca cfg) xs"
    and "files w2 certifi = Some B" "writable w2 dest"
    and "list_all2 (\<lambda>p (d, c). p \<noteq> dest \<and> files w2 p = Some d) (extra_ca cfg) xs"
  shows "\<exists>w1' w2'.
           generate_certificates_file X K certifi cfg w1 = Inr (None, w1') \<and>
           generate_certificates_file X K certifi cfg w2 = Inr (None, w2') \<and>
           files w1' dest = files w2' dest \<and>
           files w1' dest = Some (B @ concat (map fst (appended cs xs))) \<and>
           load_pem_x509_certificates X (B @ concat (map fst (appended cs xs))) =
             Some (cs @ map snd (appended cs xs)) \<and>
           distinct (cs @ map snd (appended cs xs)) \<and>
           set (cs @ map snd (appended cs xs)) = set cs \<union> snd ` set xs \<and>
           (\<forall>d c. xs = [(d, c), (d, c)] \<longrightarrow>
              files w1' dest = Some (if c \<in> set cs then B else B @ d))"
proof -
  from generate_merge [OF assms(1) assms(6) assms(2) assms(7) assms(3) assms(8) assms(5)]
  obtain w1' where 1: "generate_certificates_file X K certifi cfg w1 = Inr (None, w1')"
    "files w1' dest = Some (B @ concat (map fst (appended cs xs)))"
    "load_pem_x509_certificates X (B @ concat (map fst (appended cs xs))) =
       Some (cs @ map snd (appended cs xs))"
    by blast
  from generate_merge [OF assms(1) assms(9) assms(2) assms(10) assms(3) assms(11) assms(5)]
  obtain w2' where 2: "generate_certificates_file X K certifi cfg w2 = Inr (None, w2')"
    "files w2' dest = Some (B @ concat (map fst (appended cs xs)))"
    by blast
  have dup: "\<forall>d c. xs = [(d, c), (d, c)] \<longrightarrow>
               files w1' dest = Some (if c \<in> set cs then B else B @ d)"
    using 1(2) by auto
  have d: "distinct (cs @ map snd (appended cs xs))"
    using assms(4) by (rule appended_distinct)
  have st: "set (cs @ map snd (appended cs xs)) = set cs \<union> snd ` set xs"
    by (rule appended_set)
  show ?thesis
  proof (intro exI conjI)
    show "generate_certificates_file X K certifi cfg w1 = Inr (None, w1')" by (rule 1(1))
    show "generate_certificates_file X K certifi cfg w2 = Inr (None, w2')" by (rule 2(1))
    show "files w1' dest = files w2' dest" using 1(2) 2(2) by simp
    show "files w1' dest = Some (B @ concat (map fst (appended cs xs)))" by (rule 1(2))
    show "load_pem_x509_certificates X (B @ concat (map fst (appended cs xs))) =
            Some (cs @ map snd (appended cs xs))" by (rule 1(3))
    show "distinct (cs @ map snd (appended cs xs))" by (rule d)
    show "set (cs @ map snd (appended cs xs)) = set cs \<union> snd ` set xs" by (rule st)
    show "\<forall>d c. xs = [(d, c), (d, c)] \<longrightarrow>
               files w1' dest = Some (if c \<in> set cs then B else B @ d)" by (rule dup)
  qed
qed

text \<open>
  The amended claim C2 with the framed certificate format, on the base bundle A, B: the
  extra certificate C given twice, built once into a clean directory and once over the
  store of an earlier start, leaves A, B, C both times; the extras C and D leave
  A, B, C, D.
\<close>

theorem generate_certificates_file_idempotent_merge_witness:
  "\<exists>w1' w2' w3'.
     generate_certificates_file framed_x509 example_constants ''/base''
       (ols_config (example_config False False 30 1 [''/c1'', ''/c1''])) example_framed_world
       = Inr (None, w1') \<and>
     generate_certificates_file framed_x509 example_constants ''/base''
       (ols_config (example_config False False 30 1 [''/c1'', ''/c1'']))
       example_framed_store_world
       = Inr (None, w2') \<and>
     files w1' ''/t/store.pem'' = Some ''<A><B><C>'' \<and>
     files w2' ''/t/store.pem'' = Some ''<A><B><C>'' \<and>
     generate_certificates_file framed_x509 example_constants ''/base''
       (ols_config (example_config False False 30 1 [''/c1'', ''/c2''])) example_framed_world
       = Inr (None, w3') \<and>
     files w3' ''/t/store.pem'' = Some ''<A><B><C><D>'' \<and>
     load_pem_x509_certificates framed_x509 ''<A><B><C><D>'' =
       Some [''A'', ''B'', ''C'', ''D'']"
proof -
  have h1: "''/t/store.pem'' =
             os_path_join (certificate_directory
               (ols_config (example_config False False 30 1 ps)))
               (CERTIFICATE_STORAGE_FILENAME example_constants)" for ps
    by (simp add: os_path_join_def example_config_def example_constants_def)
  have h2: "''/base'' \<noteq> ''/t/store.pem''" by simp
  have h3: "load_pem_x509_certificates framed_x509 ''<A><B>'' = Some [''A'', ''B'']"
    by (simp add: framed_x509_def)
  have h4: "distinct [''A'', ''B'']" by simp
  have s1: "single_certificate_extras framed_x509 ''<A><B>'' [''A'', ''B'']
              [(''<C>'', ''C''), (''<C>'', ''C'')]"
    by (simp add: framed_x509_def)
  have s2: "single_certificate_extras framed_x509 ''<A><B>'' [''A'', ''B'']
              [(''<C>'', ''C''), (''<D>'', ''D'')]"
    by (simp add: framed_x509_def)
  have h5: "files example_framed_world ''/base'' = Some ''<A><B>''"
    by (simp add: example_framed_world_def)
  have h6: "writable example_framed_world ''/t/store.pem''"
    by (simp add: example_framed_world_def)
  have l1: "list_all2 (\<lambda>p (d, c). p \<noteq> ''/t/store.pem'' \<and> files example_framed_world p = Some d)
       (extra_ca (ols_config (example_config False False 30 1 [''/c1'', ''/c1''])))
       [(''<C>'', ''C''), (''<C>'', ''C'')]"
    by (simp add: example_config_def example_framed_world_def)
  have l2: "list_all2 (\<lambda>p (d, c). p \<noteq> ''/t/store.pem'' \<and> files example_framed_world p = Some d)
       (extra_ca (ols_config (example_config False False 30 1 [''/c1'', ''/c2''])))
       [(''<C>'', ''C''), (''<D>'', ''D'')]"
    by (simp add: example_config_def example_framed_world_def)
  have h8: "files example_framed_store_world ''/base'' = Some ''<A><B>''"
    by (simp add: example_framed_world_def example_framed_store_world_def)
  have h9: "writable example_framed_store_world ''/t/store.pem''"
    by (simp add: example_framed_world_def example_framed_store_world_def)
  have l3: "list_all2 (\<lambda>p (d, c). p \<noteq> ''/t/store.pem'' \<and>
                  files example_framed_store_world p = Some d)
       (extra_ca (ols_config (example_config False False 30 1 [''/c1'', ''/c1''])))
       [(''<C>'', ''C''), (''<C>'', ''C'')]"
    by (simp add: example_config_def example_framed_world_def example_framed_store_world_def)
  from generate_certificates_file_idempotent_merge [OF h1 h2 h3 h4 s1 h5 h6 l1 h8 h9 l3]
  obtain w1' w2' where a:
    "generate_certificates_file framed_x509 example_constants ''/base''
       (ols_config (example_config False False 30 1 [''/c1'', ''/c1''])) example_framed_world
       = Inr (None, w1')"
    "generate_certificates_file framed_x509 example_constants ''/base''
       (ols_config (example_config False False 30 1 [''/c1'', ''/c1'']))
       example_framed_store_world
       = Inr (None, w2')"
    "files w1' ''/t/store.pem'' = files w2' ''/t/store.pem''"
    "files w1' ''/t/store.pem'' =
       Some (''<A><B>'' @ concat (map fst (appended [''A'', ''B'']
               [(''<C>'', ''C''), (''<C>'', ''C'')])))"
    by blast
  from generate_certificates_file_idempotent_merge [OF h1 h2 h3 h4 s2 h5 h6 l2 h5 h6 l2]
  obtain w3' where b:
    "generate_certificates_file framed_x509 example_constants ''/base''
       (ols_config (example_config False False 30 1 [''/c1'', ''/c2''])) example_framed_world
       = Inr (None, w3')"
    "files w3' ''/t/store.pem'' =
       Some (''<A><B>'' @ concat (map fst (appended [''A'', ''B'']
               [(''<C>'', ''C''), (''<D>'', ''D'')])))"
    "load_pem_x509_certificates framed_x509
       (''<A><B>'' @ concat (map fst (appended [''A'', ''B'']
               [(''<C>'', ''C''), (''<D>'', ''D'')]))) =
       Some ([''A'', ''B''] @ map snd (appended [''A'', ''B'']
               [(''<C>'', ''C''), (''<D>'', ''D'')]))"
    by blast
  from a have a': "files w1' ''/t/store.pem'' = Some ''<A><B><C>''"
    "files w2' ''/t/store.pem'' = Some ''<A><B><C>''"
    by simp_all
  from b have b': "files w3' ''/t/store.pem'' = Some ''<A><B><C><D>''"
    "load_pem_x509_certificates framed_x509 ''<A><B><C><D>'' = Some [''A'', ''B'', ''C'', ''D'']"
    by simp_all
  from a(1,2) a' b(1) b' show ?thesis by blast
qed




text \<open>
  Claim C8: the builder returns the path of the destination file. The function
  \<open>generate_certificates_file\<close> is declared \<open>-> None\<close> and has no \<open>return\<close> statement:
  a successful build returns \<open>None\<close>.
\<close>

theorem generate_certificates_file_return_counterexample:
  "map_sum id fst
     (generate_certificates_file example_x509 example_constants ''/base''
        (ols_config (example_config False False 30 1 [''/c1''])) example_world) = Inr None \<and>
   None \<noteq> Some (os_path_join ''/t'' ''store.pem'')"
  by (simp add: generate_certificates_file_def shutil_copyfile_def
        add_ca_to_certificates_store_def read_rb_def write_ab_def Let_def emit_def
        os_path_join_def example_config_def example_constants_def
        example_x509_def example_world_def)

text \<open>
  Claim C8, amended: a successful build returns \<open>None\<close>; the file it wrote is at the
  certificate directory joined with the fixed store file name, and starts with the bytes
  of the base bundle.
\<close>

theorem generate_certificates_file_returns_none:
  assumes "generate_certificates_file X K certifi cfg w = Inr (r, w')"
  shows "r = None \<and>
         (\<exists>B t. files w certifi = Some B \<and>
                files w' (os_path_join (certificate_directory cfg)
                            (CERTIFICATE_STORAGE_FILENAME K)) = Some (B @ t))"
proof -
  let ?dest = "os_path_join (certificate_directory cfg) (CERTIFICATE_STORAGE_FILENAME K)"
  from assms obtain B w3 where r: "r = None" and B: "files w certifi = Some B"
    and f3: "files w3 = (files w)(?dest \<mapsto> B)"
    and add: "add_extra_cas X w3 (extra_ca cfg) ?dest = Inr w'"
    by (rule generate_Inr_elim)
  from f3 have "files w3 ?dest = Some B" by simp
  from add_extra_cas_dest_extends [OF add this] r B show ?thesis by auto
qed

text \<open>The amended claim C8 at a build with one extra certificate.\<close>

theorem generate_certificates_file_returns_none_witness:
  "\<exists>r w'. generate_certificates_file example_x509 example_constants ''/base''
            (ols_config (example_config False False 30 1 [''/c1''])) example_world
          = Inr (r, w') \<and> r = None \<and>
          (\<exists>t. files w' ''/t/store.pem'' = Some (''AB'' @ t))"
proof -
  obtain r w' where g: "generate_certificates_file example_x509 example_constants ''/base''
            (ols_config (example_config False False 30 1 [''/c1''])) example_world
          = Inr (r, w')"
    by (simp add: generate_certificates_file_def shutil_copyfile_def
        add_ca_to_certificates_store_def read_rb_def write_ab_def Let_def emit_def
        os_path_join_def example_config_def example_constants_def
        example_x509_def example_world_def)
  from generate_certificates_file_returns_none [OF g] g show ?thesis
    by (simp add: os_path_join_def example_config_def example_constants_def example_world_def)
qed

end
